theory Spec2Isabelle
  imports Complex_Main
begin

section \<open>Strings and Python values\<close>

text \<open>
  A Python \<open>str\<close> is modelled as the \<open>string\<close> of its UTF-8 bytes. The Chinese
  literals of the source are written out byte by byte; the code points are given beside
  each definition.
\<close>

definition LABEL_NOT_STARTED :: string where
  \<comment> \<open>U+672A U+542F U+52A8\<close>
  "LABEL_NOT_STARTED =
     [CHR 0xE6, CHR 0x9C, CHR 0xAA, CHR 0xE5, CHR 0x90, CHR 0xAF, CHR 0xE5, CHR 0x8A, CHR 0xA8]"

definition LABEL_IN_PRODUCTION :: string where
  \<comment> \<open>U+751F U+4EA7 U+4E2D\<close>
  "LABEL_IN_PRODUCTION =
     [CHR 0xE7, CHR 0x94, CHR 0x9F, CHR 0xE4, CHR 0xBA, CHR 0xA7, CHR 0xE4, CHR 0xB8, CHR 0xAD]"

definition LABEL_ACCEPTED_AWAITING_PAYMENT :: string where
  \<comment> \<open>U+5DF2 U+9A8C U+6536 U+FF0C U+5F85 U+56DE U+6B3E\<close>
  "LABEL_ACCEPTED_AWAITING_PAYMENT =
     [CHR 0xE5, CHR 0xB7, CHR 0xB2, CHR 0xE9, CHR 0xAA, CHR 0x8C, CHR 0xE6, CHR 0x94, CHR 0xB6,
      CHR 0xEF, CHR 0xBC, CHR 0x8C, CHR 0xE5, CHR 0xBE, CHR 0x85, CHR 0xE5, CHR 0x9B, CHR 0x9E,
      CHR 0xE6, CHR 0xAC, CHR 0xBE]"

definition LABEL_PAID_WITH_OPEN_ISSUES :: string where
  \<comment> \<open>U+5DF2 U+56DE U+6B3E U+FF0C U+6709 U+672A U+89E3 U+51B3 U+95EE U+9898\<close>
  "LABEL_PAID_WITH_OPEN_ISSUES =
     [CHR 0xE5, CHR 0xB7, CHR 0xB2, CHR 0xE5, CHR 0x9B, CHR 0x9E, CHR 0xE6, CHR 0xAC, CHR 0xBE,
      CHR 0xEF, CHR 0xBC, CHR 0x8C, CHR 0xE6, CHR 0x9C, CHR 0x89, CHR 0xE6, CHR 0x9C, CHR 0xAA,
      CHR 0xE8, CHR 0xA7, CHR 0xA3, CHR 0xE5, CHR 0x86, CHR 0xB3, CHR 0xE9, CHR 0x97, CHR 0xAE,
      CHR 0xE9, CHR 0xA2, CHR 0x98]"

definition LABEL_COMPLETE :: string where
  \<comment> \<open>U+5DF2 U+5B8C U+6210\<close>
  "LABEL_COMPLETE =
     [CHR 0xE5, CHR 0xB7, CHR 0xB2, CHR 0xE5, CHR 0xAE, CHR 0x8C, CHR 0xE6, CHR 0x88, CHR 0x90]"

definition STATUS_PASSED :: string where
  \<comment> \<open>U+901A U+8FC7, the acceptance status the status query filters on\<close>
  "STATUS_PASSED = [CHR 0xE9, CHR 0x80, CHR 0x9A, CHR 0xE8, CHR 0xBF, CHR 0x87]"

definition MSG_DOWNLOAD_FILE :: string where
  \<comment> \<open>U+4E0B U+8F7D U+6587 U+4EF6 U+FF1A\<close>
  "MSG_DOWNLOAD_FILE =
     [CHR 0xE4, CHR 0xB8, CHR 0x8B, CHR 0xE8, CHR 0xBD, CHR 0xBD, CHR 0xE6, CHR 0x96, CHR 0x87,
      CHR 0xE4, CHR 0xBB, CHR 0xB6, CHR 0xEF, CHR 0xBC, CHR 0x9A]"

definition FLASH_NO_DOWNLOAD :: string where
  \<comment> \<open>U+4F60 U+6CA1 U+6709 U+6743 U+9650 U+4E0B U+8F7D U+6B64 U+6587 U+4EF6\<close>
  "FLASH_NO_DOWNLOAD =
     [CHR 0xE4, CHR 0xBD, CHR 0xA0, CHR 0xE6, CHR 0xB2, CHR 0xA1, CHR 0xE6, CHR 0x9C, CHR 0x89,
      CHR 0xE6, CHR 0x9D, CHR 0x83, CHR 0xE9, CHR 0x99, CHR 0x90, CHR 0xE4, CHR 0xB8, CHR 0x8B,
      CHR 0xE8, CHR 0xBD, CHR 0xBD, CHR 0xE6, CHR 0xAD, CHR 0xA4, CHR 0xE6, CHR 0x96, CHR 0x87,
      CHR 0xE4, CHR 0xBB, CHR 0xB6]"

definition MSG_CUSTOMER_DENIED :: string where
  \<comment> \<open>U+5BA2 U+6237 U+5C1D U+8BD5 U+4E0B U+8F7D U+672A U+516C U+5F00 U+6587 U+4EF6\<close>
  "MSG_CUSTOMER_DENIED =
     [CHR 0xE5, CHR 0xAE, CHR 0xA2, CHR 0xE6, CHR 0x88, CHR 0xB7, CHR 0xE5, CHR 0xB0, CHR 0x9D,
      CHR 0xE8, CHR 0xAF, CHR 0x95, CHR 0xE4, CHR 0xB8, CHR 0x8B, CHR 0xE8, CHR 0xBD, CHR 0xBD,
      CHR 0xE6, CHR 0x9C, CHR 0xAA, CHR 0xE5, CHR 0x85, CHR 0xAC, CHR 0xE5, CHR 0xBC, CHR 0x80,
      CHR 0xE6, CHR 0x96, CHR 0x87, CHR 0xE4, CHR 0xBB, CHR 0xB6]"

definition FLASH_OWN_DEPARTMENT :: string where
  \<comment> \<open>U+4F60 U+53EA U+80FD U+4E0B U+8F7D U+81EA U+5DF1 U+90E8 U+95E8 U+4E0A U+4F20 U+7684
     U+6587 U+4EF6\<close>
  "FLASH_OWN_DEPARTMENT =
     [CHR 0xE4, CHR 0xBD, CHR 0xA0, CHR 0xE5, CHR 0x8F, CHR 0xAA, CHR 0xE8, CHR 0x83, CHR 0xBD,
      CHR 0xE4, CHR 0xB8, CHR 0x8B, CHR 0xE8, CHR 0xBD, CHR 0xBD, CHR 0xE8, CHR 0x87, CHR 0xAA,
      CHR 0xE5, CHR 0xB7, CHR 0xB1, CHR 0xE9, CHR 0x83, CHR 0xA8, CHR 0xE9, CHR 0x97, CHR 0xA8,
      CHR 0xE4, CHR 0xB8, CHR 0x8A, CHR 0xE4, CHR 0xBC, CHR 0xA0, CHR 0xE7, CHR 0x9A, CHR 0x84,
      CHR 0xE6, CHR 0x96, CHR 0x87, CHR 0xE4, CHR 0xBB, CHR 0xB6]"

definition MSG_EMPLOYEE_DENIED :: string where
  \<comment> \<open>U+5458 U+5DE5 U+5C1D U+8BD5 U+4E0B U+8F7D U+975E U+672C U+90E8 U+95E8 U+6587 U+4EF6\<close>
  "MSG_EMPLOYEE_DENIED =
     [CHR 0xE5, CHR 0x91, CHR 0x98, CHR 0xE5, CHR 0xB7, CHR 0xA5, CHR 0xE5, CHR 0xB0, CHR 0x9D,
      CHR 0xE8, CHR 0xAF, CHR 0x95, CHR 0xE4, CHR 0xB8, CHR 0x8B, CHR 0xE8, CHR 0xBD, CHR 0xBD,
      CHR 0xE9, CHR 0x9D, CHR 0x9E, CHR 0xE6, CHR 0x9C, CHR 0xAC, CHR 0xE9, CHR 0x83, CHR 0xA8,
      CHR 0xE9, CHR 0x97, CHR 0xA8, CHR 0xE6, CHR 0x96, CHR 0x87, CHR 0xE4, CHR 0xBB, CHR 0xB6]"




definition MSG_PAYMENT_DELETE :: string where
  \<comment> \<open>U+5220 U+9664 U+4ED8 U+6B3E U+8BB0 U+5F55 U+FF1A U+91D1 U+989D U+003D\<close>
  "MSG_PAYMENT_DELETE =
     [CHR 0xE5, CHR 0x88, CHR 0xA0, CHR 0xE9, CHR 0x99, CHR 0xA4, CHR 0xE4, CHR 0xBB, CHR 0x98,
      CHR 0xE6, CHR 0xAC, CHR 0xBE, CHR 0xE8, CHR 0xAE, CHR 0xB0, CHR 0xE5, CHR 0xBD, CHR 0x95,
      CHR 0xEF, CHR 0xBC, CHR 0x9A, CHR 0xE9, CHR 0x87, CHR 0x91, CHR 0xE9, CHR 0xA2, CHR 0x9D,
      CHR 0x3D]"

definition MSG_PROCUREMENT_DELETE :: string where
  \<comment> \<open>U+5220 U+9664 U+91C7 U+8D2D U+9879 U+FF1A\<close>
  "MSG_PROCUREMENT_DELETE =
     [CHR 0xE5, CHR 0x88, CHR 0xA0, CHR 0xE9, CHR 0x99, CHR 0xA4, CHR 0xE9, CHR 0x87, CHR 0x87,
      CHR 0xE8, CHR 0xB4, CHR 0xAD, CHR 0xE9, CHR 0xA1, CHR 0xB9, CHR 0xEF, CHR 0xBC, CHR 0x9A]"

definition MSG_SALES_DELETE :: string where
  \<comment> \<open>U+5220 U+9664 U+9500 U+552E U+4FE1 U+606F\<close>
  "MSG_SALES_DELETE =
     [CHR 0xE5, CHR 0x88, CHR 0xA0, CHR 0xE9, CHR 0x99, CHR 0xA4, CHR 0xE9, CHR 0x94, CHR 0x80,
      CHR 0xE5, CHR 0x94, CHR 0xAE, CHR 0xE4, CHR 0xBF, CHR 0xA1, CHR 0xE6, CHR 0x81, CHR 0xAF]"

text \<open>
  A Python value held in a dictionary: \<open>None\<close>, a boolean, an integer, a string or a
  nested dictionary. A dictionary literal is the list of its items in the order written.
\<close>

datatype pyval = PNone | PBool bool | PInt int | PStr string | PDict "(string \<times> pyval) list"

type_synonym pydict = "(string \<times> pyval) list"

definition opt_str :: "string option \<Rightarrow> pyval" where
  "opt_str v = (case v of None \<Rightarrow> PNone | Some s \<Rightarrow> PStr s)"


definition truthy_str :: "string option \<Rightarrow> bool" where
  \<comment> \<open>the truth value of an optional string: \<open>None\<close> and the empty string are false\<close>
  "truthy_str v = (case v of None \<Rightarrow> False | Some s \<Rightarrow> s \<noteq> [])"

text \<open>
  \<open>str.strip\<close> and \<open>str.lower\<close> on the ASCII range: the white space characters
  \<open>str.strip\<close> removes there are TAB, LF, VT, FF, CR, FS, GS, RS, US and the space;
  \<open>str.lower\<close> maps \<open>A..Z\<close> to \<open>a..z\<close>. Bytes above 0x7F are left as they are.
\<close>

definition is_space :: "char \<Rightarrow> bool" where
  "is_space c = (c \<in> set [CHR 0x09, CHR 0x0A, CHR 0x0B, CHR 0x0C, CHR 0x0D,
                          CHR 0x1C, CHR 0x1D, CHR 0x1E, CHR 0x1F, CHR 0x20])"

definition strip :: "string \<Rightarrow> string" where
  "strip s = rev (dropWhile is_space (rev (dropWhile is_space s)))"

definition lower_char :: "char \<Rightarrow> char" where
  "lower_char c =
     (case map_of (zip ''ABCDEFGHIJKLMNOPQRSTUVWXYZ'' ''abcdefghijklmnopqrstuvwxyz'') c of
        Some l \<Rightarrow> l
      | None \<Rightarrow> c)"

definition lower :: "string \<Rightarrow> string" where
  "lower s = map lower_char s"

datatype error = NotFound | NameError string | TypeError | ValueError

section \<open>Data model\<close>

text \<open>
  The rows of the tables the modelled functions read or write, with the columns those
  functions touch. A nullable column is an \<open>option\<close>. A \<open>Decimal\<close> amount is a
  rational number: sums and differences are exact. A date is kept as its ISO text.
\<close>

record user =
  user_id :: int
  user_role :: "string option"

record contract =
  contract_id :: int
  contract_name :: "string option"
  project_code :: string
  contract_number :: "string option"

record task =
  task_id :: int
  task_contract_id :: int
  task_name :: string

record acceptance =
  acc_id :: int
  acc_contract_id :: int
  acc_status :: "string option"

record payment =
  pay_id :: int
  pay_contract_id :: int
  pay_amount :: "rat option"
  pay_date :: "string option"

record invoice =
  inv_id :: int
  inv_contract_id :: int
  inv_amount :: "rat option"

record refund =
  refund_id :: int
  refund_contract_id :: int
  refund_amount :: "rat option"

record feedback =
  fb_id :: int
  fb_contract_id :: int
  fb_is_resolved :: bool

record sales_info =
  sales_id :: int
  sales_contract_id :: int
  quote_amount :: "rat option"

record procurement_item =
  item_id :: int
  item_contract_id :: int
  item_name :: string

record project_department_leader =
  leader_id :: int
  leader_contract_id :: int

record project_file =
  pf_id :: int
  pf_contract_id :: int
  uploader_id :: "int option"
  original_filename :: string
  stored_filename :: string
  file_type :: string
  version :: "string option"
  is_public :: bool
  owner_role :: "string option"
  is_deleted :: bool

record operation_log =
  op_user_id :: "int option"
  op_action :: string
  op_target_type :: "string option"
  op_target_id :: "int option"
  op_message :: "string option"
  op_extra_data :: "string option"

record database =
  users :: "user list"
  contracts :: "contract list"
  leaders :: "project_department_leader list"
  tasks :: "task list"
  procurement_items :: "procurement_item list"
  acceptances :: "acceptance list"
  payments :: "payment list"
  invoices :: "invoice list"
  refunds :: "refund list"
  feedbacks :: "feedback list"
  sales_infos :: "sales_info list"
  operation_logs :: "operation_log list"

section \<open>Status derivation: \<open>get_contract_status\<close>\<close>

text \<open>
  \<open>Model.query.filter_by(...).count()\<close> is the number of rows that satisfy the filter.
\<close>

definition count_where :: "('a \<Rightarrow> bool) \<Rightarrow> 'a list \<Rightarrow> nat" where
  "count_where P rows = length (filter P rows)"

text \<open>
  The function has six return statements. \<open>return_site\<close> names them, so that the
  last one (the defensive default after the five rules) can be told apart from rule 2,
  which returns the same pair.
\<close>

datatype return_site = Rule1 | Rule2 | Rule3 | Rule4 | Rule5 | Fallback

definition status_branch :: "bool \<Rightarrow> bool \<Rightarrow> bool \<Rightarrow> bool \<Rightarrow> bool \<Rightarrow> bool \<Rightarrow> return_site" where
  "status_branch has_tasks has_payments has_invoices has_acceptance has_accepted
       has_unresolved_feedback =
     (if (\<not> has_tasks) \<and> (\<not> has_acceptance) \<and> (\<not> has_payments) \<and> (\<not> has_invoices)
        then Rule1
      else if \<not> has_accepted then Rule2
      else if has_accepted \<and> (\<not> has_payments) then Rule3
      else if has_accepted \<and> has_payments \<and> has_unresolved_feedback then Rule4
      else if has_accepted \<and> has_payments \<and> (\<not> has_unresolved_feedback) then Rule5
      else Fallback)"

fun returned :: "return_site \<Rightarrow> string \<times> string" where
  "returned Rule1 = (LABEL_NOT_STARTED, ''grey'')"
| "returned Rule2 = (LABEL_IN_PRODUCTION, ''blue'')"
| "returned Rule3 = (LABEL_ACCEPTED_AWAITING_PAYMENT, ''orange'')"
| "returned Rule4 = (LABEL_PAID_WITH_OPEN_ISSUES, ''red'')"
| "returned Rule5 = (LABEL_COMPLETE, ''green'')"
| "returned Fallback = (LABEL_IN_PRODUCTION, ''blue'')"

definition has_tasks :: "database \<Rightarrow> int \<Rightarrow> bool" where
  "has_tasks d cid = (count_where (\<lambda>t. task_contract_id t = cid) (tasks d) > 0)"

definition has_payments :: "database \<Rightarrow> int \<Rightarrow> bool" where
  "has_payments d cid = (count_where (\<lambda>p. pay_contract_id p = cid) (payments d) > 0)"

definition has_invoices :: "database \<Rightarrow> int \<Rightarrow> bool" where
  "has_invoices d cid = (count_where (\<lambda>i. inv_contract_id i = cid) (invoices d) > 0)"

definition acceptance_q :: "database \<Rightarrow> int \<Rightarrow> acceptance list" where
  "acceptance_q d cid = filter (\<lambda>a. acc_contract_id a = cid) (acceptances d)"

definition has_acceptance :: "database \<Rightarrow> int \<Rightarrow> bool" where
  "has_acceptance d cid = (length (acceptance_q d cid) > 0)"

definition has_accepted :: "database \<Rightarrow> int \<Rightarrow> bool" where
  "has_accepted d cid =
     (count_where (\<lambda>a. acc_status a = Some STATUS_PASSED) (acceptance_q d cid) > 0)"

definition has_unresolved_feedback :: "database \<Rightarrow> int \<Rightarrow> bool" where
  "has_unresolved_feedback d cid =
     (count_where (\<lambda>f. fb_contract_id f = cid \<and> fb_is_resolved f = False) (feedbacks d) > 0)"

definition contract_status_site :: "database \<Rightarrow> contract \<Rightarrow> return_site" where
  "contract_status_site d c =
     (let cid = contract_id c in
      status_branch (has_tasks d cid) (has_payments d cid) (has_invoices d cid)
        (has_acceptance d cid) (has_accepted d cid) (has_unresolved_feedback d cid))"

definition get_contract_status :: "database \<Rightarrow> contract \<Rightarrow> string \<times> string" where
  "get_contract_status d c = returned (contract_status_site d c)"

text \<open>
  The ordered algorithm as the specification words it, over the record counts of a
  contract: tasks, acceptance records, payments, invoices, acceptance records whose status
  is "passed", and unresolved feedback records.
\<close>

definition derive_status_spec :: "nat \<Rightarrow> nat \<Rightarrow> nat \<Rightarrow> nat \<Rightarrow> nat \<Rightarrow> nat \<Rightarrow> string \<times> string" where
  "derive_status_spec n_tasks n_acceptances n_payments n_invoices n_passed n_unresolved =
     (if n_tasks = 0 \<and> n_acceptances = 0 \<and> n_payments = 0 \<and> n_invoices = 0
        then (LABEL_NOT_STARTED, ''grey'')
      else if n_passed = 0 then (LABEL_IN_PRODUCTION, ''blue'')
      else if n_payments = 0 then (LABEL_ACCEPTED_AWAITING_PAYMENT, ''orange'')
      else if n_unresolved > 0 then (LABEL_PAID_WITH_OPEN_ISSUES, ''red'')
      else (LABEL_COMPLETE, ''green''))"

section \<open>Finance aggregation: \<open>get_contract_finance_summary\<close>\<close>

text \<open>
  \<open>query.first()\<close> is the first row of the result, or \<open>None\<close>.
\<close>

definition first :: "'a list \<Rightarrow> 'a option" where
  "first rows = (case rows of [] \<Rightarrow> None | r # _ \<Rightarrow> Some r)"












section \<open>File access policy: \<open>evaluate_file_download\<close>, \<open>evaluate_file_delete\<close>\<close>

definition get_role :: "user option \<Rightarrow> string" where
  "get_role usr =
     (case usr of
        None \<Rightarrow> []
      | Some u \<Rightarrow>
          (if truthy_str (user_role u)
           then lower (strip (case user_role u of None \<Rightarrow> [] | Some r \<Rightarrow> r))
           else []))"

definition decision :: "bool \<Rightarrow> string option \<Rightarrow> string \<Rightarrow> string \<Rightarrow> pydict \<Rightarrow> pydict" where
  \<comment> \<open>the dictionary both functions return\<close>
  "decision allowed flash_message log_action log_message log_extra =
     [(''allowed'', PBool allowed),
      (''flash_message'', opt_str flash_message),
      (''log_action'', PStr log_action),
      (''log_message'', PStr log_message),
      (''log_extra'', PDict log_extra)]"

definition user_role_or_None :: "user option \<Rightarrow> pyval" where
  \<comment> \<open>\<open>user.role if user and user.role else None\<close>\<close>
  "user_role_or_None usr =
     (case usr of
        None \<Rightarrow> PNone
      | Some u \<Rightarrow> if truthy_str (user_role u) then opt_str (user_role u) else PNone)"

definition evaluate_file_download :: "user option \<Rightarrow> contract \<Rightarrow> project_file \<Rightarrow> pydict" where
  "evaluate_file_download usr c pf =
     (let role = get_role usr;
          log_action = ''file.download'';
          log_message = MSG_DOWNLOAD_FILE @ original_filename pf;
          log_extra = [(''contract_id'', PInt (contract_id c)),
                       (''file_type'', PStr (file_type pf)),
                       (''version'', opt_str (version pf)),
                       (''is_public'', PBool (is_public pf))]
      in if role \<in> set [''admin'', ''boss'', ''software_engineer'']
           then decision True None log_action log_message log_extra
         else if role = ''customer''
           then (if \<not> (is_public pf \<and> file_type pf \<in> set [''contract'', ''tech''])
                 then decision False (Some FLASH_NO_DOWNLOAD) ''file.download_denied''
                        MSG_CUSTOMER_DENIED
                        [(''contract_id'', PInt (contract_id c)),
                         (''file_type'', PStr (file_type pf)),
                         (''is_public'', PBool (is_public pf))]
                 else decision True None log_action log_message log_extra)
         else (if truthy_str (owner_role pf) \<and>
                  (case usr of None \<Rightarrow> False | Some u \<Rightarrow> owner_role pf \<noteq> user_role u)
               then decision False (Some FLASH_OWN_DEPARTMENT) ''file.download_denied''
                      MSG_EMPLOYEE_DENIED
                      [(''contract_id'', PInt (contract_id c)),
                       (''file_type'', PStr (file_type pf)),
                       (''owner_role'', opt_str (owner_role pf)),
                       (''user_role'', user_role_or_None usr)]
               else decision True None log_action log_message log_extra))"


text \<open>Reading a decision.\<close>

definition allowed :: "pydict \<Rightarrow> bool" where
  "allowed dec = (map_of dec ''allowed'' = Some (PBool True))"



section \<open>Audit logger: \<open>log_operation\<close>\<close>

text \<open>
  A request works on a session: the committed state of the store and the session's own
  view of it, which holds the changes not yet committed. \<open>db.session.add\<close> and
  \<open>db.session.delete\<close> change the view, \<open>db.session.commit\<close> makes the view the
  committed state. A request that ends in an exception, or returns without a commit,
  leaves the committed state as it was.
\<close>

record session =
  committed :: database
  pending :: database

definition begin_session :: "database \<Rightarrow> session" where
  "begin_session d = \<lparr>committed = d, pending = d\<rparr>"

definition commit :: "session \<Rightarrow> session" where
  "commit s = s\<lparr>committed := pending s\<rparr>"

definition session_add_log :: "session \<Rightarrow> operation_log \<Rightarrow> session" where
  "session_add_log s entry =
     s\<lparr>pending := (pending s)\<lparr>operation_logs := operation_logs (pending s) @ [entry]\<rparr>\<rparr>"

text \<open>
  \<open>json.dumps\<close> is a parameter: it returns the text, or the exception it raised.
\<close>

definition log_operation ::
    "(pydict \<Rightarrow> error + string) \<Rightarrow> session \<Rightarrow> user option \<Rightarrow> string \<Rightarrow> string option \<Rightarrow>
     int option \<Rightarrow> string option \<Rightarrow> pydict option \<Rightarrow> error + session" where
  "log_operation dumps s usr action target_type target_id message extra =
     (let extra_data =
            (case extra of
               None \<Rightarrow> None
             | Some e \<Rightarrow>
                 if e = [] then None
                 else (case dumps e of
                         Inr txt \<Rightarrow> Some txt
                       | Inl exc \<Rightarrow> None));
          entry = \<lparr>op_user_id = (case usr of None \<Rightarrow> None | Some u \<Rightarrow> Some (user_id u)),
                   op_action = action,
                   op_target_type = target_type,
                   op_target_id = target_id,
                   op_message = message,
                   op_extra_data = extra_data\<rparr>
      in Inr (session_add_log s entry))"

section \<open>Record services\<close>

definition first_or_404 :: "'a list \<Rightarrow> error + 'a" where
  "first_or_404 rows = (case rows of [] \<Rightarrow> Inl NotFound | r # _ \<Rightarrow> Inr r)"

definition get_or_404 :: "session \<Rightarrow> int \<Rightarrow> error + contract" where
  \<comment> \<open>\<open>Contract.query.get_or_404\<close>\<close>
  "get_or_404 s cid =
     (case find (\<lambda>c. contract_id c = cid) (contracts (pending s)) of
        None \<Rightarrow> Inl NotFound
      | Some c \<Rightarrow> Inr c)"

definition session_delete_payment :: "session \<Rightarrow> payment \<Rightarrow> session" where
  "session_delete_payment s p =
     s\<lparr>pending := (pending s)\<lparr>payments := filter (\<lambda>q. pay_id q \<noteq> pay_id p) (payments (pending s))\<rparr>\<rparr>"



definition session_delete_task :: "session \<Rightarrow> task \<Rightarrow> session" where
  "session_delete_task s t =
     s\<lparr>pending := (pending s)\<lparr>tasks := filter (\<lambda>q. task_id q \<noteq> task_id t) (tasks (pending s))\<rparr>\<rparr>"

definition session_delete_leader :: "session \<Rightarrow> project_department_leader \<Rightarrow> session" where
  "session_delete_leader s l =
     s\<lparr>pending := (pending s)\<lparr>leaders := filter (\<lambda>q. leader_id q \<noteq> leader_id l) (leaders (pending s))\<rparr>\<rparr>"

definition session_delete_procurement :: "session \<Rightarrow> procurement_item \<Rightarrow> session" where
  "session_delete_procurement s i =
     s\<lparr>pending := (pending s)\<lparr>procurement_items :=
         filter (\<lambda>q. item_id q \<noteq> item_id i) (procurement_items (pending s))\<rparr>\<rparr>"

definition session_delete_sales :: "session \<Rightarrow> sales_info \<Rightarrow> session" where
  "session_delete_sales s i =
     s\<lparr>pending := (pending s)\<lparr>sales_infos :=
         filter (\<lambda>q. sales_id q \<noteq> sales_id i) (sales_infos (pending s))\<rparr>\<rparr>"





section \<open>Views of \<open>contracts.py\<close>\<close>

text \<open>
  A view answers with a redirect to an endpoint, or ends in an exception. The request
  carries the value stored under \<open>user_id\<close> in the login session, if the key is there.
  Flash messages are not part of the model.
\<close>

datatype response = Redirect string

type_synonym outcome = "(error + response) \<times> session"

definition current_user :: "session \<Rightarrow> int option \<Rightarrow> user option" where
  \<comment> \<open>\<open>User.query.get(user_id) if user_id else None\<close>\<close>
  "current_user s login =
     (case login of
        None \<Rightarrow> None
      | Some uid \<Rightarrow> if uid = 0 then None else find (\<lambda>u. user_id u = uid) (users (pending s)))"

definition login_required ::
    "(session \<Rightarrow> outcome) \<Rightarrow> database \<Rightarrow> int option \<Rightarrow> (error + response) \<times> database" where
  \<comment> \<open>the decorator, and the request around the view: the state left behind is the
     committed one\<close>
  "login_required view d login =
     (case login of
        None \<Rightarrow> (Inr (Redirect ''auth.login''), d)
      | Some uid \<Rightarrow> (case view (begin_session d) of (res, s) \<Rightarrow> (res, committed s)))"

text \<open>
  The library functions a view calls: \<open>json.dumps\<close> and the text of a \<open>Decimal\<close>
  amount (or of \<open>None\<close>) inside an f-string.
\<close>

record library =
  json_dumps :: "pydict \<Rightarrow> error + string"
  format_amount :: "rat option \<Rightarrow> string"

text \<open>
  The local variables of a view that hold the current user, by name. A view that never
  assigns \<open>user\<close> has none; no name bound at module level is \<open>user\<close> either, so
  reading it raises \<open>NameError\<close>.
\<close>

definition module_globals :: "string list" where
  "module_globals =
     [''wraps'', ''datetime'', ''date'', ''os'', ''json'', ''Decimal'', ''Blueprint'',
      ''render_template'', ''request'', ''redirect'', ''url_for'', ''flash'', ''session'',
      ''send_from_directory'', ''current_app'', ''db'', ''login_required'', ''Contract'',
      ''Company'', ''User'', ''Department'', ''Person'', ''ProjectDepartmentLeader'', ''Task'',
      ''ProcurementItem'', ''Acceptance'', ''Payment'', ''Invoice'', ''Refund'', ''Feedback'',
      ''SalesInfo'', ''ProjectFile'', ''OperationLog'', ''log_operation'',
      ''get_contract_status'', ''STATUS_FILTERS'', ''contracts_bp'', ''ALLOWED_EXTENSIONS'',
      ''ROLE_ALLOWED_TYPES'', ''allowed_file'', ''get_role_allowed_types'', ''sanitize_part'',
      ''generate_file_name'', ''parse_date'', ''list_contracts'', ''operation_logs'',
      ''contract_operation_logs'', ''set_planned_delivery'', ''_parse_extra_data'',
      ''new_contract'', ''delete_contract'', ''manage_leaders'', ''delete_leader'',
      ''manage_tasks'', ''delete_task'', ''manage_procurements'', ''delete_procurement'',
      ''manage_acceptances'', ''delete_acceptance'', ''manage_sales'', ''delete_sales'',
      ''contract_overview'', ''manage_payments'', ''delete_payment'', ''manage_invoices'',
      ''delete_invoice'', ''manage_refunds'', ''delete_refund'', ''manage_feedbacks'',
      ''delete_feedback'', ''resolve_feedback'', ''unresolve_feedback'', ''manage_files'',
      ''download_file'', ''delete_file'']"

definition read_name :: "(string \<times> user option) list \<Rightarrow> string \<Rightarrow> error + user option" where
  "read_name local_vars n =
     (case map_of local_vars n of
        Some v \<Rightarrow> Inr v
      | None \<Rightarrow> Inl (NameError n))"

definition delete_leader_body :: "int \<Rightarrow> int \<Rightarrow> session \<Rightarrow> outcome" where
  "delete_leader_body cid lid s =
     (case get_or_404 s cid of
        Inl e \<Rightarrow> (Inl e, s)
      | Inr c \<Rightarrow>
          (case first_or_404 (filter (\<lambda>l. leader_id l = lid \<and> leader_contract_id l = contract_id c)
                               (leaders (pending s))) of
             Inl e \<Rightarrow> (Inl e, s)
           | Inr leader \<Rightarrow>
               (Inr (Redirect ''contracts.manage_leaders''),
                commit (session_delete_leader s leader))))"

definition delete_leader_view :: "database \<Rightarrow> int option \<Rightarrow> int \<Rightarrow> int \<Rightarrow> (error + response) \<times> database" where
  "delete_leader_view d login cid lid = login_required (delete_leader_body cid lid) d login"

definition delete_task_body :: "int \<Rightarrow> int \<Rightarrow> session \<Rightarrow> outcome" where
  "delete_task_body cid tid s =
     (case get_or_404 s cid of
        Inl e \<Rightarrow> (Inl e, s)
      | Inr c \<Rightarrow>
          (case first_or_404 (filter (\<lambda>t. task_id t = tid \<and> task_contract_id t = contract_id c)
                               (tasks (pending s))) of
             Inl e \<Rightarrow> (Inl e, s)
           | Inr t \<Rightarrow>
               (Inr (Redirect ''contracts.manage_tasks''),
                commit (session_delete_task s t))))"

definition delete_task_view :: "database \<Rightarrow> int option \<Rightarrow> int \<Rightarrow> int \<Rightarrow> (error + response) \<times> database" where
  "delete_task_view d login cid tid = login_required (delete_task_body cid tid) d login"

definition delete_procurement_body :: "library \<Rightarrow> int \<Rightarrow> int \<Rightarrow> session \<Rightarrow> outcome" where
  "delete_procurement_body lib cid iid s =
     (case get_or_404 s cid of
        Inl e \<Rightarrow> (Inl e, s)
      | Inr c \<Rightarrow>
          (case first_or_404 (filter (\<lambda>i. item_id i = iid \<and> item_contract_id i = contract_id c)
                               (procurement_items (pending s))) of
             Inl e \<Rightarrow> (Inl e, s)
           | Inr item \<Rightarrow>
               (case read_name [] ''user'' of
                  Inl e \<Rightarrow> (Inl e, s)
                | Inr usr \<Rightarrow>
                    (case log_operation (json_dumps lib) s usr ''procurement.delete''
                            (Some ''ProcurementItem'') (Some (item_id item))
                            (Some (MSG_PROCUREMENT_DELETE @ item_name item))
                            (Some [(''contract_id'', PInt (contract_id c)),
                                   (''project_code'', PStr (project_code c))]) of
                       Inl e \<Rightarrow> (Inl e, s)
                     | Inr s1 \<Rightarrow>
                         (Inr (Redirect ''contracts.manage_procurements''),
                          commit (session_delete_procurement s1 item))))))"

definition delete_procurement_view ::
    "library \<Rightarrow> database \<Rightarrow> int option \<Rightarrow> int \<Rightarrow> int \<Rightarrow> (error + response) \<times> database" where
  "delete_procurement_view lib d login cid iid =
     login_required (delete_procurement_body lib cid iid) d login"

definition delete_sales_body :: "library \<Rightarrow> int \<Rightarrow> session \<Rightarrow> outcome" where
  "delete_sales_body lib cid s =
     (case get_or_404 s cid of
        Inl e \<Rightarrow> (Inl e, s)
      | Inr c \<Rightarrow>
          (case first (filter (\<lambda>i. sales_contract_id i = contract_id c) (sales_infos (pending s))) of
             None \<Rightarrow> (Inr (Redirect ''contracts.manage_sales''), s)
           | Some sales \<Rightarrow>
               (case read_name [] ''user'' of
                  Inl e \<Rightarrow> (Inl e, s)
                | Inr usr \<Rightarrow>
                    (case log_operation (json_dumps lib) s usr ''sales.delete''
                            (Some ''SalesInfo'') (Some (sales_id sales))
                            (Some MSG_SALES_DELETE)
                            (Some [(''contract_id'', PInt (contract_id c)),
                                   (''project_code'', PStr (project_code c)),
                                   (''contract_number'', opt_str (contract_number c))]) of
                       Inl e \<Rightarrow> (Inl e, s)
                     | Inr s1 \<Rightarrow>
                         (Inr (Redirect ''contracts.manage_sales''),
                          commit (session_delete_sales s1 sales))))))"

definition delete_sales_view ::
    "library \<Rightarrow> database \<Rightarrow> int option \<Rightarrow> int \<Rightarrow> (error + response) \<times> database" where
  "delete_sales_view lib d login cid = login_required (delete_sales_body lib cid) d login"

definition delete_payment_body :: "library \<Rightarrow> int option \<Rightarrow> int \<Rightarrow> int \<Rightarrow> session \<Rightarrow> outcome" where
  "delete_payment_body lib login cid pid s =
     (let usr = current_user s login;
          local_vars = [(''user'', usr)]
      in case get_or_404 s cid of
           Inl e \<Rightarrow> (Inl e, s)
         | Inr c \<Rightarrow>
             (case first_or_404 (filter (\<lambda>p. pay_id p = pid \<and> pay_contract_id p = contract_id c)
                                  (payments (pending s))) of
                Inl e \<Rightarrow> (Inl e, s)
              | Inr p \<Rightarrow>
                  (case read_name local_vars ''user'' of
                     Inl e \<Rightarrow> (Inl e, s)
                   | Inr usr \<Rightarrow>
                       (case log_operation (json_dumps lib) s usr ''payment.delete''
                               (Some ''Payment'') (Some (pay_id p))
                               (Some (MSG_PAYMENT_DELETE @ format_amount lib (pay_amount p)))
                               (Some [(''contract_id'', PInt (contract_id c)),
                                      (''date'', opt_str (pay_date p))]) of
                          Inl e \<Rightarrow> (Inl e, s)
                        | Inr s1 \<Rightarrow>
                            (Inr (Redirect ''contracts.manage_payments''),
                             commit (session_delete_payment s1 p))))))"

definition delete_payment_view ::
    "library \<Rightarrow> database \<Rightarrow> int option \<Rightarrow> int \<Rightarrow> int \<Rightarrow> (error + response) \<times> database" where
  "delete_payment_view lib d login cid pid =
     login_required (delete_payment_body lib login cid pid) d login"


section \<open>Example data\<close>

definition empty_db :: database where
  "empty_db = \<lparr>users = [], contracts = [], leaders = [], tasks = [], procurement_items = [],
     acceptances = [], payments = [], invoices = [], refunds = [], feedbacks = [],
     sales_infos = [], operation_logs = []\<rparr>"

definition contract_7 :: contract where
  "contract_7 = \<lparr>contract_id = 7, contract_name = Some ''Line 3'', project_code = ''P-007'',
     contract_number = Some ''HT-7''\<rparr>"

definition user_1 :: user where
  "user_1 = \<lparr>user_id = 1, user_role = Some '' Admin''\<rparr>"

definition user_2 :: user where
  "user_2 = \<lparr>user_id = 2, user_role = Some ''customer''\<rparr>"

definition user_3 :: user where
  "user_3 = \<lparr>user_id = 3, user_role = Some ''sales''\<rparr>"


definition failing_library :: library where
  \<comment> \<open>a library whose \<open>json.dumps\<close> always raises\<close>
  "failing_library = \<lparr>json_dumps = (\<lambda>e. Inl TypeError), format_amount = (\<lambda>a. ''100.00'')\<rparr>"

definition db_7 :: database where
  "db_7 = empty_db\<lparr>users := [user_1, user_2, user_3], contracts := [contract_7],
     leaders := [\<lparr>leader_id = 2, leader_contract_id = 7\<rparr>],
     tasks := [\<lparr>task_id = 5, task_contract_id = 7, task_name = ''weld''\<rparr>],
     procurement_items := [\<lparr>item_id = 4, item_contract_id = 7, item_name = ''motor''\<rparr>],
     payments := [\<lparr>pay_id = 9, pay_contract_id = 7, pay_amount = Some 100, pay_date = None\<rparr>],
     sales_infos := [\<lparr>sales_id = 6, sales_contract_id = 7, quote_amount = Some 1000\<rparr>]\<rparr>"

section \<open>Properties of the status derivation\<close>

lemma returned_status_branch:
  "returned (status_branch ht hp hi ha hacc hf) =
     (if \<not> ht \<and> \<not> ha \<and> \<not> hp \<and> \<not> hi then (LABEL_NOT_STARTED, ''grey'')
      else if \<not> hacc then (LABEL_IN_PRODUCTION, ''blue'')
      else if \<not> hp then (LABEL_ACCEPTED_AWAITING_PAYMENT, ''orange'')
      else if hf then (LABEL_PAID_WITH_OPEN_ISSUES, ''red'')
      else (LABEL_COMPLETE, ''green''))"
  by (simp add: status_branch_def)

text \<open>
  C1. For every database state and contract, \<open>get_contract_status\<close> returns the label
  and tier of the first matching rule of the five-step algorithm of the specification,
  evaluated on the contract's counts of tasks, acceptance records, payments, invoices,
  passed acceptance records and unresolved feedback records.
\<close>

theorem get_contract_status_first_match:
  "get_contract_status d c =
     derive_status_spec
       (length (filter (\<lambda>t. task_contract_id t = contract_id c) (tasks d)))
       (length (filter (\<lambda>a. acc_contract_id a = contract_id c) (acceptances d)))
       (length (filter (\<lambda>p. pay_contract_id p = contract_id c) (payments d)))
       (length (filter (\<lambda>i. inv_contract_id i = contract_id c) (invoices d)))
       (length (filter (\<lambda>a. acc_contract_id a = contract_id c \<and> acc_status a = Some STATUS_PASSED)
          (acceptances d)))
       (length (filter (\<lambda>f. fb_contract_id f = contract_id c \<and> \<not> fb_is_resolved f) (feedbacks d)))"
proof -
  have passed: "filter (\<lambda>a. acc_status a = Some STATUS_PASSED) (acceptance_q d (contract_id c)) =
      filter (\<lambda>a. acc_contract_id a = contract_id c \<and> acc_status a = Some STATUS_PASSED)
        (acceptances d)"
    by (simp add: acceptance_q_def conj_commute)
  show ?thesis
    unfolding get_contract_status_def contract_status_site_def Let_def has_tasks_def
      has_payments_def has_invoices_def has_acceptance_def has_accepted_def
      has_unresolved_feedback_def count_where_def passed
    by (simp add: returned_status_branch derive_status_spec_def acceptance_q_def)
qed

text \<open>
  C3. The last return statement of \<open>get_contract_status\<close> is never the one taken:
  for every combination of the truth values the function computes, one of the five rules
  returns first.
\<close>

theorem status_fallback_unreachable:
  "status_branch has_t has_p has_i has_a has_acc has_fb \<noteq> Fallback"
  by (simp add: status_branch_def)

section \<open>Properties of the finance aggregation\<close>






section \<open>Properties of the file access policy\<close>

lemma decision_allowed: "allowed (decision a f la lm le) = a"
  by (simp add: allowed_def decision_def)

lemma decision_log_action: "map_of (decision a f la lm le) ''log_action'' = Some (PStr la)"
  by (simp add: decision_def)

lemma decision_log_message: "map_of (decision a f la lm le) ''log_message'' = Some (PStr lm)"
  by (simp add: decision_def)

lemma decision_log_extra: "map_of (decision a f la lm le) ''log_extra'' = Some (PDict le)"
  by (simp add: decision_def)

lemmas decision_simps =
  decision_allowed decision_log_action decision_log_message decision_log_extra

lemma get_role_None: "get_role None = []"
  by (simp add: get_role_def)






text \<open>
  C10. Without a user the derived role is the empty string, which is none of the roles
  the first two rules name, and the download of every file of every contract is allowed
  and logged as \<open>file.download\<close>, whatever the file's visibility and owner role.
\<close>

theorem download_without_user_allowed:
  "get_role None = [] \<and>
   get_role None \<notin> set [''admin'', ''boss'', ''software_engineer''] \<and>
   get_role None \<noteq> ''customer'' \<and>
   allowed (evaluate_file_download None c pf) \<and>
   map_of (evaluate_file_download None c pf) ''log_action'' = Some (PStr ''file.download'')"
  by (simp add: evaluate_file_download_def get_role_None Let_def decision_simps)

section \<open>Properties of the audit logger\<close>

lemma pending_session_add_log:
  "operation_logs (pending (session_add_log s entry)) = operation_logs (pending s) @ [entry]"
  by (simp add: session_add_log_def)

lemma committed_session_add_log: "committed (session_add_log s entry) = committed s"
  by (simp add: session_add_log_def)

text \<open>
  C7. For every input, and whatever \<open>json.dumps\<close> does, \<open>log_operation\<close> returns
  normally and the session's log holds exactly one more entry, at its end, carrying the
  action, target and message passed in. When serialising the payload raises, the entry is
  written all the same, with no payload.
\<close>

theorem log_operation_always_appends:
  "\<exists>s' entry.
     log_operation dumps s usr action target_type target_id message extra = Inr s' \<and>
     operation_logs (pending s') = operation_logs (pending s) @ [entry] \<and>
     op_action entry = action \<and> op_target_type entry = target_type \<and>
     op_target_id entry = target_id \<and> op_message entry = message \<and>
     (\<forall>e exc. extra = Some e \<longrightarrow> dumps e = Inl exc \<longrightarrow> op_extra_data entry = None)"
  by (auto simp add: log_operation_def Let_def pending_session_add_log
      split: option.splits sum.splits)

theorem log_operation_always_appends_witness:
  "\<exists>s' entry.
     log_operation (\<lambda>e. Inl TypeError) (begin_session empty_db) None ''contract.create''
        (Some ''Contract'') (Some 7) None (Some [(''k'', PInt 1)]) = Inr s' \<and>
     operation_logs (pending s') = [entry] \<and> op_extra_data entry = None"
  using log_operation_always_appends [of "\<lambda>e. Inl TypeError" "begin_session empty_db" None
      "''contract.create''" "Some ''Contract''" "Some 7" None "Some [(''k'', PInt 1)]"]
  by (auto simp add: begin_session_def empty_db_def)

section \<open>Properties of the delete operations\<close>


lemma login_required_Some:
  "login_required view d (Some uid) =
     (fst (view (begin_session d)), committed (snd (view (begin_session d))))"
  by (simp add: login_required_def split: prod.split)

lemma login_required_snd:
  "snd (login_required view d login) =
     (case login of None \<Rightarrow> d | Some uid \<Rightarrow> committed (snd (view (begin_session d))))"
  by (simp add: login_required_def split: option.split prod.split)


lemmas example_data = db_7_def empty_db_def contract_7_def user_1_def user_2_def user_3_def
  failing_library_def


lemma read_name_unbound: "read_name [] n = Inl (NameError n)"
  by (simp add: read_name_def)

lemma user_not_global: "''user'' \<notin> set module_globals"
  by (simp add: module_globals_def)

lemma delete_procurement_body_committed:
  "committed (snd (delete_procurement_body lib cid iid s)) = committed s"
  by (simp add: delete_procurement_body_def read_name_unbound split: sum.split)

lemma delete_sales_body_committed:
  "committed (snd (delete_sales_body lib cid s)) = committed s"
  by (simp add: delete_sales_body_def read_name_unbound split: sum.split option.split)

text \<open>
  C9, as stated, fails for the sales-info delete when the contract has no sales info:
  the view answers with a redirect and raises nothing.
\<close>

theorem delete_sales_counterexample:
  "delete_sales_view failing_library (db_7\<lparr>sales_infos := []\<rparr>) (Some 3) 7 =
     (Inr (Redirect ''contracts.manage_sales''), db_7\<lparr>sales_infos := []\<rparr>)"
  by (simp add: delete_sales_view_def login_required_Some delete_sales_body_def
      get_or_404_def first_def example_data begin_session_def)

text \<open>
  C9, amended. No invocation of the procurement-item delete or of the sales-info delete
  changes the store: no record is removed and no log entry is committed. For a logged-in
  request on an existing contract, the procurement-item delete of an existing item and
  the sales-info delete of existing sales info end in \<open>NameError\<close> for the name
  \<open>user\<close>.
\<close>

theorem unbound_user_deletes_nothing:
  "snd (delete_procurement_view lib d login cid iid) = d \<and>
   snd (delete_sales_view lib d login cid) = d \<and>
   (find (\<lambda>k. contract_id k = cid) (contracts d) = Some c \<longrightarrow>
      (filter (\<lambda>i. item_id i = iid \<and> item_contract_id i = contract_id c) (procurement_items d)
         \<noteq> [] \<longrightarrow>
         fst (delete_procurement_view lib d (Some uid) cid iid) = Inl (NameError ''user'')) \<and>
      (filter (\<lambda>i. sales_contract_id i = contract_id c) (sales_infos d) \<noteq> [] \<longrightarrow>
         fst (delete_sales_view lib d (Some uid) cid) = Inl (NameError ''user'')))"
proof -
  have a: "snd (delete_procurement_view lib d login cid iid) = d"
    by (simp add: delete_procurement_view_def login_required_snd
        delete_procurement_body_committed begin_session_def split: option.split)
  have b: "snd (delete_sales_view lib d login cid) = d"
    by (simp add: delete_sales_view_def login_required_snd
        delete_sales_body_committed begin_session_def split: option.split)
  have p: "fst (delete_procurement_view lib d (Some uid) cid iid) = Inl (NameError ''user'')"
    if "find (\<lambda>k. contract_id k = cid) (contracts d) = Some c"
      and "filter (\<lambda>i. item_id i = iid \<and> item_contract_id i = contract_id c)
             (procurement_items d) \<noteq> []"
    using that
    by (simp add: delete_procurement_view_def login_required_Some delete_procurement_body_def
        get_or_404_def begin_session_def first_or_404_def read_name_unbound split: list.split)
  have q: "fst (delete_sales_view lib d (Some uid) cid) = Inl (NameError ''user'')"
    if "find (\<lambda>k. contract_id k = cid) (contracts d) = Some c"
      and "filter (\<lambda>i. sales_contract_id i = contract_id c) (sales_infos d) \<noteq> []"
    using that
    by (simp add: delete_sales_view_def login_required_Some delete_sales_body_def
        get_or_404_def begin_session_def first_def read_name_unbound split: list.split)
  from a b p q show ?thesis by blast
qed

theorem unbound_user_deletes_nothing_witness:
  "snd (delete_procurement_view failing_library db_7 (Some 3) 7 4) = db_7 \<and>
   snd (delete_sales_view failing_library db_7 (Some 3) 7) = db_7 \<and>
   fst (delete_procurement_view failing_library db_7 (Some 3) 7 4) = Inl (NameError ''user'') \<and>
   fst (delete_sales_view failing_library db_7 (Some 3) 7) = Inl (NameError ''user'')"
  using unbound_user_deletes_nothing [of failing_library db_7 "Some 3" 7 4 contract_7 3]
  by (simp add: example_data)

lemma delete_task_view_logs:
  "operation_logs (snd (delete_task_view d login cid tid)) = operation_logs d"
  by (simp add: delete_task_view_def login_required_snd delete_task_body_def
      session_delete_task_def commit_def begin_session_def
      split: option.split sum.split)

lemma delete_leader_view_logs:
  "operation_logs (snd (delete_leader_view d login cid lid)) = operation_logs d"
  by (simp add: delete_leader_view_def login_required_snd delete_leader_body_def
      session_delete_leader_def commit_def begin_session_def
      split: option.split sum.split)

text \<open>
  C4 fails on the code. The task delete and the department-leader delete commit the
  removal and leave the operation log as it was, for every request; on the example store
  the task and the leader are gone and the log has no entry. The payment delete, on the
  same store, commits the removal together with a \<open>payment.delete\<close> entry.
\<close>

theorem delete_task_and_leader_write_no_log:
  "operation_logs (snd (delete_task_view d login cid tid)) = operation_logs d \<and>
   operation_logs (snd (delete_leader_view d login cid lid)) = operation_logs d \<and>
   tasks (snd (delete_task_view db_7 (Some 3) 7 5)) = [] \<and>
   operation_logs (snd (delete_task_view db_7 (Some 3) 7 5)) = [] \<and>
   leaders (snd (delete_leader_view db_7 (Some 3) 7 2)) = [] \<and>
   operation_logs (snd (delete_leader_view db_7 (Some 3) 7 2)) = [] \<and>
   payments (snd (delete_payment_view failing_library db_7 (Some 3) 7 9)) = [] \<and>
   map op_action (operation_logs (snd (delete_payment_view failing_library db_7 (Some 3) 7 9)))
     = [''payment.delete'']"
proof -
  have t1: "tasks (snd (delete_task_view db_7 (Some 3) 7 5)) = []"
    by (simp add: delete_task_view_def login_required_snd delete_task_body_def
        session_delete_task_def commit_def get_or_404_def first_or_404_def begin_session_def
        example_data)
  have l1: "leaders (snd (delete_leader_view db_7 (Some 3) 7 2)) = []"
    by (simp add: delete_leader_view_def login_required_snd delete_leader_body_def
        session_delete_leader_def commit_def get_or_404_def first_or_404_def begin_session_def
        example_data)
  have p1: "payments (snd (delete_payment_view failing_library db_7 (Some 3) 7 9)) = [] \<and>
      map op_action (operation_logs (snd (delete_payment_view failing_library db_7 (Some 3) 7 9)))
        = [''payment.delete'']"
    by (simp add: delete_payment_view_def login_required_snd delete_payment_body_def
        session_delete_payment_def session_add_log_def log_operation_def read_name_def
        current_user_def commit_def get_or_404_def first_or_404_def begin_session_def
        example_data Let_def)
  have e: "operation_logs db_7 = []"
    by (simp add: example_data)
  show ?thesis
    by (simp add: delete_task_view_logs delete_leader_view_logs t1 l1 p1 e)
qed

end
